theory Spec2Isabelle
  imports Main
begin

section \<open>Python values, exceptions and string helpers\<close>

text \<open>
  The editor is a Python script (\<^verbatim>\<open>kobi.py\<close>) built on the prompt_toolkit and pygments
  libraries. Python strings are modelled as HOL strings (one \<^typ>\<open>char\<close> per code point
  below 256), Python integers as \<^typ>\<open>int\<close>, and every exception the script or the
  library calls it makes can raise is a value of \<open>error\<close>.
\<close>

datatype error =
    FileNotFoundError
  | OSError string
  | UnicodeDecodeError
  | ClassNotFound
  | AttributeError
  | TypeError
  | ValueError
  | IndexError
  | AssertionError
  | EOFError
  | KeyboardInterrupt

text \<open>
  A handler either returns or raises; in both cases the global state is whatever the
  statements executed so far have made it, so the state is part of the result.
\<close>

datatype outcome = Returned | Raised error

text \<open>\<^verbatim>\<open>str.isdigit()\<close>: at least one character, and every character is a digit. Below
  code point 256 the digit characters are \<^verbatim>\<open>0\<close>..\<^verbatim>\<open>9\<close> and the superscripts
  U+00B2, U+00B3 and U+00B9.\<close>

definition isdigit_char :: "char \<Rightarrow> bool" where
  "isdigit_char c =
     (let n = (of_char c :: nat)
      in (48 \<le> n \<and> n \<le> 57) \<or> n = 178 \<or> n = 179 \<or> n = 185)"

definition isdigit :: "string \<Rightarrow> bool" where
  "isdigit s = (s \<noteq> [] \<and> list_all isdigit_char s)"

definition is_decimal_char :: "char \<Rightarrow> bool" where
  "is_decimal_char c = (let n = (of_char c :: nat) in 48 \<le> n \<and> n \<le> 57)"

definition digit_value :: "char \<Rightarrow> int" where
  "digit_value c = int (of_char c) - 48"

text \<open>\<^verbatim>\<open>int(s)\<close> on a string that passed \<^verbatim>\<open>isdigit()\<close>: the decimal value. It raises
  \<^verbatim>\<open>ValueError\<close> when a character is a superscript digit, and also when the string has
  more digits (leading zeros counted) than the interpreter's limit for converting
  between strings and integers, 4300 unless reconfigured.\<close>

definition max_str_digits :: nat where
  "max_str_digits = 4300"

definition py_int :: "string \<Rightarrow> error + int" where
  "py_int s =
     (if s \<noteq> [] \<and> list_all is_decimal_char s
      then (if length s > max_str_digits
            then Inl ValueError
            else Inr (foldl (\<lambda>acc c. 10 * acc + digit_value c) 0 s))
      else Inl ValueError)"

text \<open>\<^verbatim>\<open>str(n)\<close> for an integer: decimal digits, with a minus sign when negative.\<close>

definition digit_char :: "nat \<Rightarrow> char" where
  "digit_char d = ''0123456789'' ! d"

fun str_nat :: "nat \<Rightarrow> string" where
  "str_nat n = (if n < 10 then [digit_char n] else str_nat (n div 10) @ [digit_char (n mod 10)])"

declare str_nat.simps [simp del]

definition str_int :: "int \<Rightarrow> string" where
  "str_int i = (if i < 0 then CHR ''-'' # str_nat (nat (- i)) else str_nat (nat i))"

text \<open>\<^verbatim>\<open>s.split("\n")\<close>: the pieces between line feeds; always at least one piece.\<close>

fun split_nl :: "string \<Rightarrow> string list" where
  "split_nl [] = [[]]"
| "split_nl (c # cs) =
     (if c = CHR 0x0A then [] # split_nl cs
      else (case split_nl cs of
              l # ls \<Rightarrow> (c # l) # ls
            | [] \<Rightarrow> [[c]]))"

text \<open>List subscription \<^verbatim>\<open>xs[i]\<close> with an integer: \<open>-1\<close> is the last element, and an
  index beyond either end raises.\<close>

definition py_index :: "'a list \<Rightarrow> int \<Rightarrow> error + 'a" where
  "py_index xs i =
     (if 0 \<le> i \<and> i < int (length xs) then Inr (xs ! nat i)
      else if i < 0 \<and> - int (length xs) \<le> i then Inr (xs ! nat (int (length xs) + i))
      else Inl IndexError)"

text \<open>\<^verbatim>\<open>bisect.bisect_right(xs, x)\<close> on an ascending list: the number of leading
  elements that are at most \<open>x\<close>.\<close>

definition bisect_right :: "nat list \<Rightarrow> nat \<Rightarrow> nat" where
  "bisect_right xs x = length (takeWhile (\<lambda>y. y \<le> x) xs)"

section \<open>The library's Document: text seen as lines\<close>

text \<open>
  \<^verbatim>\<open>editor.document\<close> is prompt_toolkit's immutable \<^verbatim>\<open>Document\<close>, a view of the buffer's
  text and cursor position. The functions below follow its properties
  \<^verbatim>\<open>lines\<close>, \<^verbatim>\<open>_line_start_indexes\<close>, \<^verbatim>\<open>_find_line_start_index\<close>,
  \<^verbatim>\<open>cursor_position_row\<close>, \<^verbatim>\<open>cursor_position_col\<close> and its method
  \<^verbatim>\<open>translate_row_col_to_index\<close>.
\<close>

definition lines :: "string \<Rightarrow> string list" where
  "lines t = split_nl t"

text \<open>The running sums \<^verbatim>\<open>pos += line_length + 1; append(pos)\<close>.\<close>

fun cumulative :: "nat \<Rightarrow> nat list \<Rightarrow> nat list" where
  "cumulative pos [] = []"
| "cumulative pos (n # ns) = (pos + n + 1) # cumulative (pos + n + 1) ns"

definition line_start_indexes :: "string \<Rightarrow> nat list" where
  "line_start_indexes t =
     (let indexes = 0 # cumulative 0 (map length (lines t))
      in if length indexes > 1 then butlast indexes else indexes)"

definition find_line_start_index :: "string \<Rightarrow> nat \<Rightarrow> error + (int \<times> nat)" where
  "find_line_start_index t index =
     (let indexes = line_start_indexes t;
          pos = int (bisect_right indexes index) - 1
      in case py_index indexes pos of
           Inl e \<Rightarrow> Inl e
         | Inr start \<Rightarrow> Inr (pos, start))"

definition cursor_position_row :: "string \<Rightarrow> nat \<Rightarrow> error + int" where
  "cursor_position_row t cp =
     (case find_line_start_index t cp of Inl e \<Rightarrow> Inl e | Inr (row, _) \<Rightarrow> Inr row)"

definition cursor_position_col :: "string \<Rightarrow> nat \<Rightarrow> error + int" where
  "cursor_position_col t cp =
     (case find_line_start_index t cp of
        Inl e \<Rightarrow> Inl e
      | Inr (_, line_start_index) \<Rightarrow> Inr (int cp - int line_start_index))"

text \<open>
  \<^verbatim>\<open>translate_row_col_to_index(row, col)\<close>: a row outside the document is not an
  error; the \<^verbatim>\<open>except IndexError\<close> branch takes the first line for a negative row and
  the last line otherwise, and the result is kept within the text.
\<close>

definition translate_row_col_to_index :: "string \<Rightarrow> int \<Rightarrow> int \<Rightarrow> error + int" where
  "translate_row_col_to_index t row col =
     (let indexes = line_start_indexes t; ls = lines t;
          found =
            (case (py_index indexes row, py_index ls row) of
               (Inr result, Inr line) \<Rightarrow> Inr (result, line)
             | _ \<Rightarrow>
                 (if row < 0
                  then (case (py_index indexes 0, py_index ls 0) of
                          (Inr result, Inr line) \<Rightarrow> Inr (result, line)
                        | _ \<Rightarrow> Inl IndexError)
                  else (case (py_index indexes (- 1), py_index ls (- 1)) of
                          (Inr result, Inr line) \<Rightarrow> Inr (result, line)
                        | _ \<Rightarrow> Inl IndexError)))
      in case found of
           Inl e \<Rightarrow> Inl e
         | Inr (result, line) \<Rightarrow>
             (let result1 = int result + max 0 (min col (int (length line)))
              in Inr (max 0 (min result1 (int (length t))))))"

section \<open>The library's Buffer: text, cursor, selection and snapshot stacks\<close>

text \<open>
  \<^verbatim>\<open>editor.buffer\<close> is prompt_toolkit's \<^verbatim>\<open>Buffer\<close>. Of its state the script reaches the
  text, the cursor position, the selection state and the two stacks of
  \<^verbatim>\<open>(text, cursor_position)\<close> snapshots behind \<^verbatim>\<open>undo()\<close> and \<^verbatim>\<open>redo()\<close>. The
  stacks are Python lists used from their end; here the top of a stack is the head.
\<close>

datatype selection_state = SelectionState nat

record buffer =
  buf_text :: string
  cursor_position :: nat
  selection_state :: "selection_state option"
  undo_stack :: "(string \<times> nat) list"
  redo_stack :: "(string \<times> nat) list"

text \<open>\<^verbatim>\<open>Document(text, cursor_position)\<close> asserts that the cursor lies within the text.\<close>

definition Document :: "string \<Rightarrow> nat \<Rightarrow> error + (string \<times> nat)" where
  "Document t cp = (if cp \<le> length t then Inr (t, cp) else Inl AssertionError)"

text \<open>\<^verbatim>\<open>buffer.document = value\<close>: text and cursor are set together; a changed text
  drops the selection (\<^verbatim>\<open>_text_changed\<close>).\<close>

definition set_document :: "string \<times> nat \<Rightarrow> buffer \<Rightarrow> buffer" where
  "set_document d b =
     (let text_changed = (fst d \<noteq> buf_text b)
      in b\<lparr>buf_text := fst d,
           cursor_position := snd d,
           selection_state := (if text_changed then None else selection_state b)\<rparr>)"

text \<open>\<^verbatim>\<open>buffer.cursor_position = value\<close>: the setter keeps the value within the text.\<close>

definition set_cursor_position :: "int \<Rightarrow> buffer \<Rightarrow> buffer" where
  "set_cursor_position v b =
     (let v1 = (if v > int (length (buf_text b)) then int (length (buf_text b)) else v);
          v2 = (if v1 < 0 then 0 else v1)
      in b\<lparr>cursor_position := nat (max 0 v2)\<rparr>)"

text \<open>\<^verbatim>\<open>insert_text(data)\<close> with the default arguments: insert at the cursor and move
  the cursor behind the inserted text.\<close>

definition insert_text :: "string \<Rightarrow> buffer \<Rightarrow> outcome \<times> buffer" where
  "insert_text data b =
     (let otext = buf_text b; ocpos = cursor_position b;
          t = take ocpos otext @ data @ drop ocpos otext;
          cpos = ocpos + length data
      in case Document t cpos of
           Inl e \<Rightarrow> (Raised e, b)
         | Inr d \<Rightarrow> (Returned, set_document d b))"






text \<open>
  Three names the script uses are not defined by the library: \<^verbatim>\<open>Buffer\<close> has no
  attribute \<^verbatim>\<open>search_state\<close> (the search state belongs to the \<^verbatim>\<open>BufferControl\<close> and is
  an argument of \<^verbatim>\<open>Buffer.apply_search\<close>) and no method \<^verbatim>\<open>delete_selection\<close> (the
  method is \<^verbatim>\<open>cut_selection\<close>), and \<^verbatim>\<open>Document\<close> has no property
  \<^verbatim>\<open>selection_range_text\<close>. Reading any of them raises \<^verbatim>\<open>AttributeError\<close>.
\<close>

definition getattr_search_state :: "buffer \<Rightarrow> error + string" where
  "getattr_search_state b = Inl AttributeError"

definition getattr_selection_range_text :: "buffer \<Rightarrow> error + string" where
  "getattr_selection_range_text b = Inl AttributeError"

definition getattr_delete_selection :: "buffer \<Rightarrow> error + buffer" where
  "getattr_delete_selection b = Inl AttributeError"

section \<open>The script: module state and start-up\<close>

text \<open>
  The collaborators the script does not implement are parameters: file access
  (\<open>io_read name\<close> is \<^verbatim>\<open>open(name, "r", encoding="utf-8")\<close> followed by \<^verbatim>\<open>f.read()\<close>;
  \<open>io_write name s\<close> is the whole block \<^verbatim>\<open>with open(name, "w", ...) as f: f.write(s)\<close>,
  \<open>None\<close> when it completes), pygments' \<^verbatim>\<open>guess_lexer_for_filename\<close> (returning the
  class of the lexer it found) and the line the user gives to \<^verbatim>\<open>input()\<close>.
\<close>

record io =
  io_read :: "string \<Rightarrow> error + string"
  io_write :: "string \<Rightarrow> string \<Rightarrow> error option"

type_synonym guess = "string \<Rightarrow> string \<Rightarrow> error + string"

datatype prompt_reply = Entered string | Aborted error

datatype lexer = PygmentsLexer string

datatype clipboard_data = ClipboardData string

text \<open>The handler objects of the key bindings, as far as the key processor tells them
  apart: the script's nine handlers and the library's \<^verbatim>\<open>self-insert\<close> and
  \<^verbatim>\<open>backward-delete-char\<close>.\<close>

datatype binding =
    SelfInsert | BackwardDeleteChar | HSave | HQuit | HFind | HGoTo | HCopy | HCut | HPaste | HUndo | HRedo

text \<open>
  \<open>editor\<close> is the \<^verbatim>\<open>TextArea\<close>; \<open>clipboard\<close> is what \<^verbatim>\<open>event.app.clipboard.get_data()\<close>
  returns (the application's in-memory clipboard returns the most recent
  \<^verbatim>\<open>set_data\<close> argument, and an empty \<^verbatim>\<open>ClipboardData\<close> before the first one);
  \<open>previous_handler\<close> is the key processor's record of the handler called last.
\<close>

record text_area =
  buffer :: buffer
  lexer :: "lexer option"

record app =
  filename :: string
  message :: string
  editor :: text_area
  clipboard :: "clipboard_data option"
  previous_handler :: "binding option"
  is_done :: bool

definition filename_of_argv :: "string list \<Rightarrow> string" where
  "filename_of_argv argv = (if length argv > 1 then argv ! 1 else ''newfile.txt'')"

definition load_file :: "io \<Rightarrow> string \<Rightarrow> error + string" where
  "load_file fio name =
     (case io_read fio name of
        Inr s \<Rightarrow> Inr s
      | Inl e \<Rightarrow> (if e = FileNotFoundError then Inr [] else Inl e))"

definition make_lexer :: "guess \<Rightarrow> string \<Rightarrow> string \<Rightarrow> error + lexer option" where
  "make_lexer guess_lexer_for_filename name txt =
     (case guess_lexer_for_filename name txt of
        Inr pyg \<Rightarrow> Inr (Some (PygmentsLexer pyg))
      | Inl e \<Rightarrow> (if e = ClassNotFound then Inr None else Inl e))"

text \<open>\<^verbatim>\<open>TextArea(text=content, lexer=lexer, ...)\<close> creates its buffer from
  \<^verbatim>\<open>Document(text, 0)\<close>: cursor at the start, no selection, both stacks empty.\<close>

definition TextArea :: "string \<Rightarrow> lexer option \<Rightarrow> error + text_area" where
  "TextArea txt lx =
     (case Document txt 0 of
        Inl e \<Rightarrow> Inl e
      | Inr d \<Rightarrow>
          Inr \<lparr>buffer = \<lparr>buf_text = fst d, cursor_position = snd d, selection_state = None,
                         undo_stack = [], redo_stack = []\<rparr>,
               lexer = lx\<rparr>)"

text \<open>The module body up to \<^verbatim>\<open>app.run()\<close>: file name, content, lexer, editor, empty
  status message.\<close>

definition startup :: "io \<Rightarrow> guess \<Rightarrow> string list \<Rightarrow> error + app" where
  "startup fio guess_lexer_for_filename argv =
     (let name = filename_of_argv argv
      in case load_file fio name of
           Inl e \<Rightarrow> Inl e
         | Inr content \<Rightarrow>
             (case make_lexer guess_lexer_for_filename name content of
                Inl e \<Rightarrow> Inl e
              | Inr lx \<Rightarrow>
                  (case TextArea content lx of
                     Inl e \<Rightarrow> Inl e
                   | Inr ed \<Rightarrow>
                       Inr \<lparr>filename = name, message = [], editor = ed,
                            clipboard = Some (ClipboardData []),
                            previous_handler = None, is_done = False\<rparr>)))"

definition with_buffer :: "buffer \<Rightarrow> app \<Rightarrow> app" where
  "with_buffer b st = st\<lparr>editor := (editor st)\<lparr>buffer := b\<rparr>\<rparr>"

text \<open>\<^verbatim>\<open>get_statusbar_text\<close>: the file name, the 1-based row and column of the cursor and
  the status message.\<close>

definition get_statusbar_text :: "app \<Rightarrow> error + string" where
  "get_statusbar_text st =
     (let b = buffer (editor st)
      in case cursor_position_row (buf_text b) (cursor_position b) of
           Inl e \<Rightarrow> Inl e
         | Inr r \<Rightarrow>
             (case cursor_position_col (buf_text b) (cursor_position b) of
                Inl e \<Rightarrow> Inl e
              | Inr c \<Rightarrow>
                  Inr ('' '' @ filename st @ '' | Ln '' @ str_int (r + 1) @ '', Col ''
                         @ str_int (c + 1) @ '' '' @ message st @ '' '')))"

definition save_file :: "io \<Rightarrow> string \<Rightarrow> app \<Rightarrow> outcome \<times> app" where
  "save_file fio name st =
     (case io_write fio name (buf_text (buffer (editor st))) of
        Some e \<Rightarrow> (Raised e, st)
      | None \<Rightarrow> (Returned, st\<lparr>message := '' [Saved]''\<rparr>))"

section \<open>The script: key handlers\<close>

text \<open>Ctrl+S.\<close>

definition handle_c_s :: "io \<Rightarrow> app \<Rightarrow> outcome \<times> app" where
  "handle_c_s fio st = save_file fio (filename st) st"

text \<open>Ctrl+Q.\<close>

definition handle_c_q :: "app \<Rightarrow> outcome \<times> app" where
  "handle_c_q st = (Returned, st\<lparr>is_done := True\<rparr>)"

text \<open>Ctrl+F: a non-empty search term is stored through \<^verbatim>\<open>editor.buffer.search_state\<close>
  and \<^verbatim>\<open>apply_search(highlight=True)\<close> is called; the latter has no parameter
  \<^verbatim>\<open>highlight\<close>.\<close>

definition handle_c_f :: "prompt_reply \<Rightarrow> app \<Rightarrow> outcome \<times> app" where
  "handle_c_f reply st =
     (case reply of
        Aborted e \<Rightarrow> (Raised e, st)
      | Entered term_str \<Rightarrow>
          (if term_str \<noteq> []
           then (case getattr_search_state (buffer (editor st)) of
                   Inl e \<Rightarrow> (Raised e, st)
                 | Inr _ \<Rightarrow> (Raised TypeError, st))
           else (Returned, st)))"

text \<open>Ctrl+G.\<close>

definition handle_c_g :: "prompt_reply \<Rightarrow> app \<Rightarrow> outcome \<times> app" where
  "handle_c_g reply st =
     (case reply of
        Aborted e \<Rightarrow> (Raised e, st)
      | Entered line_str \<Rightarrow>
          (if isdigit line_str
           then (case py_int line_str of
                   Inl e \<Rightarrow> (Raised e, st)
                 | Inr n \<Rightarrow>
                     (let line = n - 1
                      in case translate_row_col_to_index (buf_text (buffer (editor st))) line 0 of
                           Inl e \<Rightarrow> (Raised e, st)
                         | Inr idx \<Rightarrow>
                             (Returned,
                              (with_buffer (set_cursor_position idx (buffer (editor st))) st)
                                \<lparr>message := '' [Line '' @ str_int (line + 1) @ '']''\<rparr>)))
           else (Returned, st)))"

text \<open>Ctrl+C.\<close>

definition handle_c_c :: "app \<Rightarrow> outcome \<times> app" where
  "handle_c_c st =
     (let buf = buffer (editor st)
      in case selection_state buf of
           Some _ \<Rightarrow>
             (case getattr_selection_range_text buf of
                Inl e \<Rightarrow> (Raised e, st)
              | Inr txt \<Rightarrow>
                  (if txt \<noteq> []
                   then (Returned, st\<lparr>clipboard := Some (ClipboardData txt),
                                       message := '' [Copied]''\<rparr>)
                   else (Returned, st)))
         | None \<Rightarrow> (Returned, st\<lparr>message := '' [No Selection]''\<rparr>))"

text \<open>Ctrl+X.\<close>

definition handle_c_x :: "app \<Rightarrow> outcome \<times> app" where
  "handle_c_x st =
     (let buf = buffer (editor st)
      in case selection_state buf of
           Some _ \<Rightarrow>
             (case getattr_selection_range_text buf of
                Inl e \<Rightarrow> (Raised e, st)
              | Inr txt \<Rightarrow>
                  (if txt \<noteq> []
                   then (let st1 = st\<lparr>clipboard := Some (ClipboardData txt)\<rparr>
                         in case getattr_delete_selection buf of
                              Inl e \<Rightarrow> (Raised e, st1)
                            | Inr buf1 \<Rightarrow> (Returned, (with_buffer buf1 st1)\<lparr>message := '' [Cut]''\<rparr>))
                   else (Returned, st)))
         | None \<Rightarrow> (Returned, st\<lparr>message := '' [No Selection]''\<rparr>))"

text \<open>Ctrl+V.\<close>

definition handle_c_v :: "app \<Rightarrow> outcome \<times> app" where
  "handle_c_v st =
     (case clipboard st of
        None \<Rightarrow> (Returned, st)
      | Some (ClipboardData txt) \<Rightarrow>
          (if txt \<noteq> []
           then (case insert_text txt (buffer (editor st)) of
                   (Raised e, b) \<Rightarrow> (Raised e, with_buffer b st)
                 | (Returned, b) \<Rightarrow> (Returned, (with_buffer b st)\<lparr>message := '' [Pasted]''\<rparr>))
           else (Returned, st)))"



section \<open>The library's key processor\<close>









section \<open>Well-formed states and example states\<close>





text \<open>An editor as start-up leaves it on a file with the given content, for the
  examples below.\<close>

definition editor_on :: "string \<Rightarrow> app" where
  "editor_on content =
     \<lparr>filename = ''newfile.txt'', message = [],
      editor = \<lparr>buffer = \<lparr>buf_text = content, cursor_position = 0, selection_state = None,
                           undo_stack = [], redo_stack = []\<rparr>,
                lexer = None\<rparr>,
      clipboard = Some (ClipboardData []), previous_handler = None, is_done = False\<rparr>"

definition ten_lines :: string where
  "ten_lines = [CHR ''a'', CHR 0x0A, CHR ''b'', CHR 0x0A, CHR ''c'', CHR 0x0A, CHR ''d'', CHR 0x0A,
                CHR ''e'', CHR 0x0A, CHR ''f'', CHR 0x0A, CHR ''g'', CHR 0x0A, CHR ''h'', CHR 0x0A,
                CHR ''i'', CHR 0x0A, CHR ''j'']"

text \<open>A file collaborator holding one file, on which every write succeeds, and a lexer
  collaborator that recognises no language.\<close>

definition disk_with :: "string \<Rightarrow> string \<Rightarrow> io" where
  "disk_with name content =
     \<lparr>io_read = (\<lambda>n. if n = name then Inr content else Inl FileNotFoundError),
      io_write = (\<lambda>n s. None)\<rparr>"

definition no_lexer_known :: guess where
  "no_lexer_known name txt = Inl ClassNotFound"

text \<open>A file collaborator holding one file and refusing to write any other, and a
  lexer collaborator that knows the plain-text lexer for \<^verbatim>\<open>.txt\<close> names only.\<close>

definition disk_only :: "string \<Rightarrow> string \<Rightarrow> io" where
  "disk_only name content =
     \<lparr>io_read = (\<lambda>n. if n = name then Inr content else Inl FileNotFoundError),
      io_write = (\<lambda>n s. if n = name then None else Some (OSError ''read-only''))\<rparr>"

definition txt_is_plain :: guess where
  "txt_is_plain name txt =
     (if drop (length name - 4) name = ''.txt'' then Inr ''TextLexer'' else Inl ClassNotFound)"

text \<open>The editor that start-up builds from them when \<^verbatim>\<open>newfile.txt\<close> holds \<^verbatim>\<open>hi\<close>.\<close>

definition started_on_hi :: app where
  "started_on_hi =
     \<lparr>filename = ''newfile.txt'', message = [],
      editor = \<lparr>buffer = \<lparr>buf_text = ''hi'', cursor_position = 0, selection_state = None,
                           undo_stack = [], redo_stack = []\<rparr>,
                lexer = Some (PygmentsLexer ''TextLexer'')\<rparr>,
      clipboard = Some (ClipboardData []), previous_handler = None, is_done = False\<rparr>"


section \<open>Facts about lines and the status bar\<close>

lemma split_nl_not_Nil: "split_nl t \<noteq> []"
  by (induction t) (auto split: list.splits)

lemma lines_not_Nil: "lines t \<noteq> []"
  by (simp add: lines_def split_nl_not_Nil)

lemma length_cumulative: "length (cumulative pos ns) = length ns"
  by (induction ns arbitrary: pos) auto

lemma line_start_indexes_eq:
  "line_start_indexes t = 0 # butlast (cumulative 0 (map length (lines t)))"
proof -
  have "cumulative 0 (map length (lines t)) \<noteq> []"
    using lines_not_Nil [of t] length_cumulative [of 0 "map length (lines t)"] by auto
  then show ?thesis
    by (simp add: line_start_indexes_def Let_def)
qed

lemma length_line_start_indexes: "length (line_start_indexes t) = length (lines t)"
  using lines_not_Nil [of t]
  by (simp add: line_start_indexes_eq length_cumulative)

lemma bisect_right_bounds:
  "1 \<le> bisect_right (0 # xs) x \<and> bisect_right (0 # xs) x \<le> length (0 # xs)"
  using length_takeWhile_le [of "\<lambda>y. y \<le> x" xs] by (simp add: bisect_right_def)

lemma find_line_start_index_ok:
  "\<exists>row start. find_line_start_index t cp = Inr (row, start) \<and> 0 \<le> row"
proof -
  obtain xs where xs: "line_start_indexes t = 0 # xs"
    using line_start_indexes_eq by blast
  from bisect_right_bounds [of xs cp] show ?thesis
    by (auto simp: find_line_start_index_def xs py_index_def Let_def)
qed

lemma get_statusbar_text_ok:
  "\<exists>rest. get_statusbar_text st = Inr ('' '' @ filename st @ '' | Ln '' @ rest)"
proof -
  obtain row start
    where f: "find_line_start_index (buf_text (buffer (editor st))) (cursor_position (buffer (editor st)))
                = Inr (row, start)"
    using find_line_start_index_ok by blast
  show ?thesis
    by (simp add: get_statusbar_text_def cursor_position_row_def cursor_position_col_def f)
qed

section \<open>Facts about the last line\<close>

lemma decimal_is_digit: "is_decimal_char c \<Longrightarrow> isdigit_char c"
  by (simp add: is_decimal_char_def isdigit_char_def Let_def)

lemma py_int_isdigit: "py_int s = Inr n \<Longrightarrow> isdigit s"
  by (auto simp: py_int_def isdigit_def list_all_iff decimal_is_digit split: if_splits)

lemma sum_split_nl: "sum_list (map (\<lambda>l. Suc (length l)) (split_nl t)) = Suc (length t)"
proof (induction t)
  case Nil
  show ?case by simp
next
  case (Cons c cs)
  show ?case
  proof (cases "c = CHR 0x0A")
    case True
    with Cons show ?thesis by simp
  next
    case False
    obtain l ls where s: "split_nl cs = l # ls"
      using split_nl_not_Nil [of cs] by (cases "split_nl cs") auto
    with Cons False show ?thesis by simp
  qed
qed

lemma cumulative_not_Nil: "ns \<noteq> [] \<Longrightarrow> cumulative pos ns \<noteq> []"
  by (cases ns) auto

lemma last_start:
  "ns \<noteq> [] \<Longrightarrow> last (pos # butlast (cumulative pos ns)) = pos + sum_list (map Suc (butlast ns))"
proof (induction ns arbitrary: pos)
  case Nil
  then show ?case by simp
next
  case (Cons n ms)
  show ?case
  proof (cases ms)
    case Nil
    then show ?thesis by simp
  next
    case (Cons m ms')
    then have ne: "ms \<noteq> []" by simp
    from Cons.IH [OF ne, of "pos + n + 1"] cumulative_not_Nil [OF ne, of "pos + n + 1"] ne
    show ?thesis by simp
  qed
qed

lemma sum_butlast_last:
  "ns \<noteq> [] \<Longrightarrow> sum_list (map Suc ns) = sum_list (map Suc (butlast ns)) + Suc (last ns)"
  by (induction ns) auto

lemma last_line_start:
  "last (line_start_indexes t) + length (last (lines t)) = length t"
proof -
  let ?ns = "map length (lines t)"
  have ne: "?ns \<noteq> []" using lines_not_Nil [of t] by simp
  have "sum_list (map Suc ?ns) = Suc (length t)"
    using sum_split_nl [of t] by (simp add: lines_def comp_def)
  with sum_butlast_last [OF ne]
  have "sum_list (map Suc (butlast ?ns)) + Suc (last ?ns) = Suc (length t)" by simp
  moreover have "last ?ns = length (last (lines t))"
    using lines_not_Nil [of t] by (simp add: last_map)
  moreover have "last (line_start_indexes t) = sum_list (map Suc (butlast ?ns))"
    using last_start [OF ne, of 0] by (simp add: line_start_indexes_eq)
  ultimately show ?thesis by simp
qed

lemma py_index_last: "xs \<noteq> [] \<Longrightarrow> py_index xs (- 1) = Inr (last xs)"
proof -
  assume ne: "xs \<noteq> []"
  then have "nat (int (length xs) + - 1) = length xs - 1" by (cases xs) auto
  with ne show ?thesis
    by (cases xs) (auto simp: py_index_def last_conv_nth)
qed

lemma py_index_beyond: "int (length xs) \<le> i \<Longrightarrow> py_index xs i = Inl IndexError"
  by (simp add: py_index_def)

lemma translate_beyond_last_row:
  assumes "int (length (lines t)) \<le> row"
  shows "translate_row_col_to_index t row 0 = Inr (int (length t - length (last (lines t))))"
proof -
  have i: "py_index (line_start_indexes t) row = Inl IndexError"
    using assms by (simp add: py_index_beyond length_line_start_indexes)
  have ne: "line_start_indexes t \<noteq> []"
    by (simp add: line_start_indexes_eq)
  have l: "py_index (line_start_indexes t) (- 1) = Inr (last (line_start_indexes t))"
    by (rule py_index_last [OF ne])
  have m: "py_index (lines t) (- 1) = Inr (last (lines t))"
    by (rule py_index_last [OF lines_not_Nil])
  have r: "\<not> row < 0" using assms by simp
  have e: "last (line_start_indexes t) = length t - length (last (lines t))"
    using last_line_start [of t] by simp
  have le: "last (line_start_indexes t) \<le> length t"
    using last_line_start [of t] by simp
  show ?thesis
    using le by (simp add: translate_row_col_to_index_def i l m r e [symmetric])
qed

section \<open>Facts about start-up\<close>

lemma startup_filename:
  assumes "startup fio g argv = Inr st"
  shows "filename st = filename_of_argv argv
       \<and> load_file fio (filename_of_argv argv) = Inr (buf_text (buffer (editor st)))"
  using assms
  by (auto simp: startup_def TextArea_def Document_def Let_def split: sum.splits)

lemma startup_reads:
  assumes "startup fio g argv = Inr st"
  shows "io_read fio (filename_of_argv argv) = Inr (buf_text (buffer (editor st)))
       \<or> (io_read fio (filename_of_argv argv) = Inl FileNotFoundError
          \<and> buf_text (buffer (editor st)) = [])"
  using assms
  by (auto simp: startup_def load_file_def TextArea_def Document_def Let_def
      split: sum.splits if_splits)

lemma startup_example:
  "startup (disk_only ''newfile.txt'' ''hi'') txt_is_plain [''kobi.py''] = Inr started_on_hi"
  by (simp add: startup_def filename_of_argv_def load_file_def disk_only_def make_lexer_def
      txt_is_plain_def TextArea_def Document_def started_on_hi_def)

section \<open>Facts about snapshots and undo\<close>











section \<open>The claims\<close>

text \<open>
  C1, as the script behaves. A go-to-line request beyond the last line is not refused:
  for every state and every decimal answer that \<^verbatim>\<open>int()\<close> converts (at most 4300
  digits) and whose value exceeds the number of lines, the Ctrl+G handler returns
  without raising, leaves the text alone and puts the cursor on the first character
  of the last line.
\<close>

theorem goto_line_beyond_end_clamps:
  assumes "py_int s = Inr n"
    and "int (length (lines (buf_text (buffer (editor st))))) < n"
  shows "fst (handle_c_g (Entered s) st) = Returned
       \<and> buf_text (buffer (editor (snd (handle_c_g (Entered s) st)))) = buf_text (buffer (editor st))
       \<and> cursor_position (buffer (editor (snd (handle_c_g (Entered s) st))))
           = length (buf_text (buffer (editor st)))
             - length (last (lines (buf_text (buffer (editor st)))))"
proof -
  have d: "isdigit s" by (rule py_int_isdigit [OF assms(1)])
  have r: "int (length (lines (buf_text (buffer (editor st))))) \<le> n - 1"
    using assms(2) by simp
  show ?thesis
    by (simp add: handle_c_g_def d assms(1) translate_beyond_last_row [OF r]
        with_buffer_def set_cursor_position_def)
qed

theorem goto_line_beyond_end_clamps_witness:
  "py_int ''1000'' = Inr 1000
   \<and> int (length (lines (buf_text (buffer (editor (editor_on ten_lines)))))) < 1000
   \<and> fst (handle_c_g (Entered ''1000'') (editor_on ten_lines)) = Returned
   \<and> cursor_position (buffer (editor (snd (handle_c_g (Entered ''1000'') (editor_on ten_lines))))) = 18"
proof -
  have h1: "py_int ''1000'' = Inr 1000"
    by (simp add: py_int_def max_str_digits_def is_decimal_char_def digit_value_def)
  have b: "buf_text (buffer (editor (editor_on ten_lines))) = ten_lines"
    by (simp add: editor_on_def)
  have l: "lines ten_lines = [''a'', ''b'', ''c'', ''d'', ''e'', ''f'', ''g'', ''h'', ''i'', ''j'']"
    by (simp add: lines_def ten_lines_def)
  have n: "length ten_lines = 19" by (simp add: ten_lines_def)
  have h2: "int (length (lines (buf_text (buffer (editor (editor_on ten_lines)))))) < 1000"
    by (simp add: b l)
  from goto_line_beyond_end_clamps [OF h1 h2] h1 h2 show ?thesis
    by (simp add: b l n)
qed

text \<open>
  C1, as stated, fails: on a document of ten lines with the cursor at offset 0, the
  answer \<^verbatim>\<open>1000\<close> makes the handler return normally and moves the cursor to offset 18,
  the start of line 10.
\<close>

theorem goto_line_1000_moves_cursor:
  "length (lines ten_lines) = 10
   \<and> cursor_position (buffer (editor (editor_on ten_lines))) = 0
   \<and> fst (handle_c_g (Entered ''1000'') (editor_on ten_lines)) = Returned
   \<and> cursor_position (buffer (editor (snd (handle_c_g (Entered ''1000'') (editor_on ten_lines))))) = 18"
  by code_simp

text \<open>
  C2. Saving is all or nothing for the editor: either the file collaborator completes
  the write and the handler returns with the status message \<^verbatim>\<open>[Saved]\<close>, or the
  collaborator's failure is raised out of the handler unchanged and the editor state
  (buffer, cursor, stacks, message) is exactly the state before the save.
\<close>

theorem save_all_or_nothing:
  "(io_write fio (filename st) (buf_text (buffer (editor st))) = None
      \<and> handle_c_s fio st = (Returned, st\<lparr>message := '' [Saved]''\<rparr>))
   \<or> (\<exists>e. io_write fio (filename st) (buf_text (buffer (editor st))) = Some e
          \<and> handle_c_s fio st = (Raised e, st))"
  by (cases "io_write fio (filename st) (buf_text (buffer (editor st)))")
     (simp_all add: handle_c_s_def save_file_def)




text \<open>
  C4. Searching \<^verbatim>\<open>foo\<close> in \<^verbatim>\<open>foo bar foo\<close> with the cursor at offset 0: the Ctrl+F
  handler raises \<^verbatim>\<open>AttributeError\<close> when it reads \<^verbatim>\<open>editor.buffer.search_state\<close>, and
  the cursor stays at offset 0 instead of moving to the match at offset 8.
\<close>

theorem find_term_raises:
  "handle_c_f (Entered ''foo'') (editor_on ''foo bar foo'')
     = (Raised AttributeError, editor_on ''foo bar foo'')
   \<and> cursor_position (buffer (editor (snd (handle_c_f (Entered ''foo'') (editor_on ''foo bar foo''))))) = 0"
  by (simp add: handle_c_f_def getattr_search_state_def editor_on_def)

text \<open>
  C5. With no selection active, Ctrl+X and Ctrl+C return without raising, set the
  status message \<^verbatim>\<open>[No Selection]\<close> and change nothing else: the text area (text,
  cursor, selection, stacks) and the clipboard are as before, so no text is taken.
\<close>

theorem cut_copy_without_selection:
  assumes "selection_state (buffer (editor st)) = None"
  shows "handle_c_x st = (Returned, st\<lparr>message := '' [No Selection]''\<rparr>)
       \<and> handle_c_c st = (Returned, st\<lparr>message := '' [No Selection]''\<rparr>)
       \<and> editor (snd (handle_c_x st)) = editor st
       \<and> clipboard (snd (handle_c_x st)) = clipboard st
       \<and> editor (snd (handle_c_c st)) = editor st
       \<and> clipboard (snd (handle_c_c st)) = clipboard st"
  using assms by (simp add: handle_c_x_def handle_c_c_def)

theorem cut_copy_without_selection_witness:
  "selection_state (buffer (editor (editor_on ''foo bar foo''))) = None
   \<and> handle_c_x (editor_on ''foo bar foo'')
       = (Returned, (editor_on ''foo bar foo'')\<lparr>message := '' [No Selection]''\<rparr>)
   \<and> buf_text (buffer (editor (snd (handle_c_c (editor_on ''foo bar foo''))))) = ''foo bar foo''"
proof -
  have h: "selection_state (buffer (editor (editor_on ''foo bar foo''))) = None"
    by (simp add: editor_on_def)
  from cut_copy_without_selection [OF h] h show ?thesis
    by (simp add: editor_on_def)
qed

text \<open>
  C6. When the file collaborator reports that the named file does not exist,
  \<open>load_file\<close> returns the empty string instead of failing, and start-up yields an
  editor whose text is empty, that is, a document of one empty line.
\<close>

theorem missing_file_starts_empty:
  assumes "io_read fio name = Inl FileNotFoundError"
  shows "load_file fio name = Inr []
       \<and> lines [] = [[]]
       \<and> (\<forall>g argv lx. filename_of_argv argv = name \<and> make_lexer g name [] = Inr lx \<longrightarrow>
            (\<exists>st. startup fio g argv = Inr st
                \<and> buf_text (buffer (editor st)) = []
                \<and> cursor_position (buffer (editor st)) = 0
                \<and> lines (buf_text (buffer (editor st))) = [[]]))"
  using assms
  by (simp add: load_file_def lines_def startup_def TextArea_def Document_def)

theorem missing_file_starts_empty_witness:
  "io_read (disk_with ''other.txt'' ''hi'') ''notes.txt'' = Inl FileNotFoundError
   \<and> load_file (disk_with ''other.txt'' ''hi'') ''notes.txt'' = Inr []
   \<and> filename_of_argv [''kobi.py'', ''notes.txt''] = ''notes.txt''
   \<and> make_lexer no_lexer_known ''notes.txt'' [] = Inr None
   \<and> (\<exists>st. startup (disk_with ''other.txt'' ''hi'') no_lexer_known [''kobi.py'', ''notes.txt''] = Inr st
          \<and> buf_text (buffer (editor st)) = []
          \<and> lines (buf_text (buffer (editor st))) = [[]])"
proof -
  have h: "io_read (disk_with ''other.txt'' ''hi'') ''notes.txt'' = Inl FileNotFoundError"
    by (simp add: disk_with_def)
  have a: "filename_of_argv [''kobi.py'', ''notes.txt''] = ''notes.txt''"
    by (simp add: filename_of_argv_def)
  have m: "make_lexer no_lexer_known ''notes.txt'' [] = Inr None"
    by (simp add: make_lexer_def no_lexer_known_def)
  from missing_file_starts_empty [OF h] a m h show ?thesis
    by blast
qed

text \<open>
  C7. An interactive prompt that is aborted, a find prompt answered with the empty
  string and a go-to-line prompt answered with anything that is not a number leave
  the whole state (text, cursor, both stacks, clipboard, message) as it was; the
  empty query and the non-digit answer make the handler return without raising.
\<close>

theorem prompt_without_input_changes_nothing:
  "handle_c_f (Entered []) st = (Returned, st)
   \<and> handle_c_f (Aborted e) st = (Raised e, st)
   \<and> handle_c_g (Aborted e) st = (Raised e, st)
   \<and> (\<not> isdigit s \<longrightarrow> handle_c_g (Entered s) st = (Returned, st))
   \<and> (\<not> (s \<noteq> [] \<and> list_all is_decimal_char s) \<longrightarrow> snd (handle_c_g (Entered s) st) = st)"
  by (simp add: handle_c_f_def handle_c_g_def py_int_def)

theorem prompt_without_input_changes_nothing_witness:
  "\<not> isdigit ''abc'' \<and> \<not> (''abc'' \<noteq> [] \<and> list_all is_decimal_char ''abc'')
   \<and> handle_c_g (Entered ''abc'') (editor_on ten_lines) = (Returned, editor_on ten_lines)
   \<and> snd (handle_c_g (Entered ''abc'') (editor_on ten_lines)) = editor_on ten_lines"
proof -
  have h1: "\<not> isdigit ''abc''"
    by (simp add: isdigit_def isdigit_char_def)
  have h2: "\<not> (''abc'' \<noteq> [] \<and> list_all is_decimal_char ''abc'')"
    by (simp add: is_decimal_char_def)
  from prompt_without_input_changes_nothing [of "editor_on ten_lines" EOFError "''abc''"] h1 h2
  show ?thesis by blast
qed

text \<open>
  C8. When the lexer collaborator recognises no language for the file name and
  content (\<^verbatim>\<open>ClassNotFound\<close>), \<open>make_lexer\<close> returns \<open>None\<close> as a value, and start-up
  succeeds with a text area that has no lexer and holds the file's content.
\<close>

theorem unknown_language_gives_no_lexer:
  assumes "g name txt = Inl ClassNotFound"
  shows "make_lexer g name txt = Inr None
       \<and> (\<forall>fio argv. filename_of_argv argv = name \<and> load_file fio name = Inr txt \<longrightarrow>
            (\<exists>st. startup fio g argv = Inr st
                \<and> lexer (editor st) = None
                \<and> buf_text (buffer (editor st)) = txt))"
  using assms
  by (simp add: make_lexer_def startup_def TextArea_def Document_def)

theorem unknown_language_gives_no_lexer_witness:
  "no_lexer_known ''notes.xyz'' ''hi'' = Inl ClassNotFound
   \<and> make_lexer no_lexer_known ''notes.xyz'' ''hi'' = Inr None
   \<and> filename_of_argv [''kobi.py'', ''notes.xyz''] = ''notes.xyz''
   \<and> load_file (disk_with ''notes.xyz'' ''hi'') ''notes.xyz'' = Inr ''hi''
   \<and> (\<exists>st. startup (disk_with ''notes.xyz'' ''hi'') no_lexer_known [''kobi.py'', ''notes.xyz''] = Inr st
          \<and> lexer (editor st) = None
          \<and> buf_text (buffer (editor st)) = ''hi'')"
proof -
  have h: "no_lexer_known ''notes.xyz'' ''hi'' = Inl ClassNotFound"
    by (simp add: no_lexer_known_def)
  have a: "filename_of_argv [''kobi.py'', ''notes.xyz''] = ''notes.xyz''"
    by (simp add: filename_of_argv_def)
  have l: "load_file (disk_with ''notes.xyz'' ''hi'') ''notes.xyz'' = Inr ''hi''"
    by (simp add: load_file_def disk_with_def)
  from unknown_language_gives_no_lexer [of no_lexer_known "''notes.xyz''" "''hi''"] a l h show ?thesis
    by blast
qed

text \<open>
  C9. Started without a command-line argument, the script uses the file name
  \<^verbatim>\<open>newfile.txt\<close>: the editor's content is what the file collaborator reads under that
  name (empty when it reports the file missing), Ctrl+S hands that name and the
  buffer text to the collaborator's write, and the status bar shows the name.
\<close>

theorem default_file_name:
  assumes "length argv \<le> 1"
  shows "filename_of_argv argv = ''newfile.txt''
       \<and> (\<forall>st. startup fio g argv = Inr st \<longrightarrow>
             filename st = ''newfile.txt''
           \<and> load_file fio ''newfile.txt'' = Inr (buf_text (buffer (editor st)))
           \<and> (io_read fio ''newfile.txt'' = Inr (buf_text (buffer (editor st)))
              \<or> (io_read fio ''newfile.txt'' = Inl FileNotFoundError
                 \<and> buf_text (buffer (editor st)) = []))
           \<and> (\<forall>fio'. handle_c_s fio' st =
                  (case io_write fio' ''newfile.txt'' (buf_text (buffer (editor st))) of
                     Some e \<Rightarrow> (Raised e, st)
                   | None \<Rightarrow> (Returned, st\<lparr>message := '' [Saved]''\<rparr>)))
           \<and> (\<exists>rest. get_statusbar_text st = Inr ('' newfile.txt | Ln '' @ rest)))"
proof -
  have n: "filename_of_argv argv = ''newfile.txt''"
    using assms by (simp add: filename_of_argv_def)
  show ?thesis
  proof (intro conjI allI impI)
    show "filename_of_argv argv = ''newfile.txt''" by (rule n)
  next
    fix st assume s: "startup fio g argv = Inr st"
    from startup_filename [OF s] n
    show f: "filename st = ''newfile.txt''"
      and "load_file fio ''newfile.txt'' = Inr (buf_text (buffer (editor st)))"
      by simp_all
    from startup_reads [OF s] n
    show "io_read fio ''newfile.txt'' = Inr (buf_text (buffer (editor st)))
        \<or> (io_read fio ''newfile.txt'' = Inl FileNotFoundError
           \<and> buf_text (buffer (editor st)) = [])"
      by simp
    from f show "handle_c_s fio' st =
          (case io_write fio' ''newfile.txt'' (buf_text (buffer (editor st))) of
             Some e \<Rightarrow> (Raised e, st)
           | None \<Rightarrow> (Returned, st\<lparr>message := '' [Saved]''\<rparr>))" for fio'
      by (simp add: handle_c_s_def save_file_def)
    from get_statusbar_text_ok [of st] f
    show "\<exists>rest. get_statusbar_text st = Inr ('' newfile.txt | Ln '' @ rest)"
      by simp
  qed
qed

theorem default_file_name_witness:
  "length [''kobi.py''] \<le> 1
   \<and> startup (disk_only ''newfile.txt'' ''hi'') txt_is_plain [''kobi.py''] = Inr started_on_hi
   \<and> filename started_on_hi = ''newfile.txt''
   \<and> io_read (disk_only ''newfile.txt'' ''hi'') ''newfile.txt''
       = Inr (buf_text (buffer (editor started_on_hi)))
   \<and> io_write (disk_only ''newfile.txt'' ''hi'') ''newfile.txt'' ''hi'' = None
   \<and> io_write (disk_only ''newfile.txt'' ''hi'') ''other.txt'' ''hi'' = Some (OSError ''read-only'')
   \<and> handle_c_s (disk_only ''newfile.txt'' ''hi'') started_on_hi
       = (Returned, started_on_hi\<lparr>message := '' [Saved]''\<rparr>)
   \<and> (\<exists>rest. get_statusbar_text started_on_hi = Inr ('' newfile.txt | Ln '' @ rest))"
proof -
  have h: "length [''kobi.py''] \<le> 1" by simp
  have b: "buf_text (buffer (editor started_on_hi)) = ''hi''"
    by (simp add: started_on_hi_def)
  have w: "io_write (disk_only ''newfile.txt'' ''hi'') ''newfile.txt'' ''hi'' = None"
    "io_write (disk_only ''newfile.txt'' ''hi'') ''other.txt'' ''hi'' = Some (OSError ''read-only'')"
    "io_read (disk_only ''newfile.txt'' ''hi'') ''newfile.txt'' = Inr ''hi''"
    by (simp_all add: disk_only_def)
  from default_file_name [OF h, of "disk_only ''newfile.txt'' ''hi''" txt_is_plain]
    startup_example
  have "filename started_on_hi = ''newfile.txt''"
    and "handle_c_s (disk_only ''newfile.txt'' ''hi'') started_on_hi =
          (case io_write (disk_only ''newfile.txt'' ''hi'') ''newfile.txt''
                  (buf_text (buffer (editor started_on_hi))) of
             Some e \<Rightarrow> (Raised e, started_on_hi)
           | None \<Rightarrow> (Returned, started_on_hi\<lparr>message := '' [Saved]''\<rparr>))"
    and "\<exists>rest. get_statusbar_text started_on_hi = Inr ('' newfile.txt | Ln '' @ rest)"
    by blast+
  with h b w startup_example show ?thesis
    by simp
qed

text \<open>
  C10. With no clipboard data, or with clipboard data whose text is empty, Ctrl+V
  returns and leaves the whole state unchanged, the text and the cursor included.
\<close>

theorem paste_with_empty_clipboard:
  assumes "clipboard st = None \<or> clipboard st = Some (ClipboardData [])"
  shows "handle_c_v st = (Returned, st)"
  using assms by (auto simp: handle_c_v_def)

theorem paste_with_empty_clipboard_witness:
  "(clipboard (editor_on ''abc'') = None \<or> clipboard (editor_on ''abc'') = Some (ClipboardData []))
   \<and> handle_c_v (editor_on ''abc'') = (Returned, editor_on ''abc'')"
proof -
  have h: "clipboard (editor_on ''abc'') = None \<or> clipboard (editor_on ''abc'') = Some (ClipboardData [])"
    by (simp add: editor_on_def)
  from paste_with_empty_clipboard [OF h] h show ?thesis by simp
qed

end
